theory Spec2Isabelle
  imports Main
begin

section \<open>JavaScript values\<close>

text \<open>
  Raw tool arguments and channel replies are untyped JavaScript values. A string is a
  list of code units; a \<^typ>\<open>char\<close> stands for one code unit (units below 256 are
  representable). A plain object is its list of own properties; reading a property that
  the object does not have yields \<open>undefined\<close>.
\<close>

datatype jsval =
    JUndefined
  | JNull
  | JBool bool
  | JNum int
  | JStr string
  | JArr "jsval list"
  | JObj "(string \<times> jsval) list"

definition get_prop :: "(string \<times> jsval) list \<Rightarrow> string \<Rightarrow> jsval" where
  "get_prop ps k = (case map_of ps k of None \<Rightarrow> JUndefined | Some v \<Rightarrow> v)"

section \<open>Schema validation (zod)\<close>

text \<open>
  The argument schemas of \<open>enhanced.ts\<close> are zod objects over \<open>z.string()\<close>,
  \<open>z.boolean()\<close> and \<open>.optional()\<close>. \<open>parse\<close> either returns the typed
  arguments or throws one \<open>ZodError\<close> that carries the list of issues. A zod object
  parses every key of its shape before it decides, so each failing key adds its issue.
\<close>

record ZodIssue =
  code :: string
  expected :: string
  received :: string
  path :: "string list"
  message :: string

definition getParsedType :: "jsval \<Rightarrow> string" where
  "getParsedType v =
     (case v of
        JUndefined \<Rightarrow> ''undefined''
      | JNull \<Rightarrow> ''null''
      | JBool _ \<Rightarrow> ''boolean''
      | JNum _ \<Rightarrow> ''number''
      | JStr _ \<Rightarrow> ''string''
      | JArr _ \<Rightarrow> ''array''
      | JObj _ \<Rightarrow> ''object'')"

definition invalid_type :: "string \<Rightarrow> jsval \<Rightarrow> string list \<Rightarrow> ZodIssue" where
  "invalid_type e v p =
     \<lparr> code = ''invalid_type'', expected = e, received = getParsedType v, path = p,
       message = (if v = JUndefined then ''Required''
                  else ''Expected '' @ e @ '', received '' @ getParsedType v) \<rparr>"

definition z_string :: "string list \<Rightarrow> jsval \<Rightarrow> ZodIssue list + string" where
  "z_string p v = (case v of JStr s \<Rightarrow> Inr s | _ \<Rightarrow> Inl [invalid_type ''string'' v p])"

definition z_boolean :: "string list \<Rightarrow> jsval \<Rightarrow> ZodIssue list + bool" where
  "z_boolean p v = (case v of JBool b \<Rightarrow> Inr b | _ \<Rightarrow> Inl [invalid_type ''boolean'' v p])"

definition z_optional ::
  "(string list \<Rightarrow> jsval \<Rightarrow> ZodIssue list + 'a) \<Rightarrow> string list \<Rightarrow> jsval \<Rightarrow> ZodIssue list + 'a option" where
  "z_optional inner p v =
     (if v = JUndefined then Inr None
      else (case inner p v of Inl is \<Rightarrow> Inl is | Inr x \<Rightarrow> Inr (Some x)))"

definition issues :: "ZodIssue list + 'a \<Rightarrow> ZodIssue list" where
  "issues r = (case r of Inl is \<Rightarrow> is | Inr _ \<Rightarrow> [])"

record TeachSelectorArgs =
  actionDescription :: string
  teach_selector :: string
  teach_notes :: "string option"

definition TeachSelectorSchema_parse :: "jsval \<Rightarrow> ZodIssue list + TeachSelectorArgs" where
  "TeachSelectorSchema_parse params =
     (case params of
        JObj ps \<Rightarrow>
          (let a = z_string [''actionDescription''] (get_prop ps ''actionDescription'');
               s = z_string [''selector''] (get_prop ps ''selector'');
               n = z_optional z_string [''notes''] (get_prop ps ''notes'')
           in (case (a, s, n) of
                 (Inr a', Inr s', Inr n') \<Rightarrow>
                   Inr \<lparr> actionDescription = a', teach_selector = s', teach_notes = n' \<rparr>
               | _ \<Rightarrow> Inl (issues a @ issues s @ issues n)))
      | _ \<Rightarrow> Inl [invalid_type ''object'' params []])"

record EnumerateElementsArgs =
  includeHidden :: "bool option"

definition EnumerateElementsSchema_parse :: "jsval \<Rightarrow> ZodIssue list + EnumerateElementsArgs" where
  "EnumerateElementsSchema_parse params =
     (case params of
        JObj ps \<Rightarrow>
          (case z_optional z_boolean [''includeHidden''] (get_prop ps ''includeHidden'') of
             Inr h \<Rightarrow> Inr \<lparr> includeHidden = h \<rparr>
           | Inl is \<Rightarrow> Inl is)
      | _ \<Rightarrow> Inl [invalid_type ''object'' params []])"

record ClickBySelectorArgs =
  click_selector :: string
  click_description :: "string option"

definition ClickBySelectorSchema_parse :: "jsval \<Rightarrow> ZodIssue list + ClickBySelectorArgs" where
  "ClickBySelectorSchema_parse params =
     (case params of
        JObj ps \<Rightarrow>
          (let s = z_string [''selector''] (get_prop ps ''selector'');
               d = z_optional z_string [''description''] (get_prop ps ''description'')
           in (case (s, d) of
                 (Inr s', Inr d') \<Rightarrow> Inr \<lparr> click_selector = s', click_description = d' \<rparr>
               | _ \<Rightarrow> Inl (issues s @ issues d)))
      | _ \<Rightarrow> Inl [invalid_type ''object'' params []])"

record EnhancedSnapshotArgs =
  includeElements :: "bool option"

definition EnhancedSnapshotSchema_parse :: "jsval \<Rightarrow> ZodIssue list + EnhancedSnapshotArgs" where
  "EnhancedSnapshotSchema_parse params =
     (case params of
        JObj ps \<Rightarrow>
          (case z_optional z_boolean [''includeElements''] (get_prop ps ''includeElements'') of
             Inr e \<Rightarrow> Inr \<lparr> includeElements = e \<rparr>
           | Inl is \<Rightarrow> Inl is)
      | _ \<Rightarrow> Inl [invalid_type ''object'' params []])"

section \<open>Errors and results\<close>

text \<open>
  A handler either returns its content blocks or throws. What is thrown is the
  \<open>ZodError\<close> of \<open>parse\<close> or the error with which \<open>context.sendSocketMessage\<close>
  (or \<open>captureAriaSnapshot\<close>) rejects, or the \<open>TypeError\<close> of the JavaScript
  runtime (a property read on \<open>null\<close> or \<open>undefined\<close>, a call of something that
  is not a function).
\<close>

datatype thrown = ZodError "ZodIssue list" | ChannelError string | TypeError string

datatype content = TextContent string | ImageContent jsval string

section \<open>Numbers and dates as text\<close>

definition digit :: "int \<Rightarrow> char" where
  "digit n = ''0123456789'' ! nat (n mod 10)"

fun string_of_nat :: "nat \<Rightarrow> string" where
  "string_of_nat n =
     (if n < 10 then [digit (int n)] else string_of_nat (n div 10) @ [digit (int n)])"

declare string_of_nat.simps [simp del]

definition pad2 :: "int \<Rightarrow> string" where
  "pad2 n = [digit (n div 10), digit n]"

definition pad3 :: "int \<Rightarrow> string" where
  "pad3 n = [digit (n div 100), digit (n div 10), digit n]"

definition pad4 :: "int \<Rightarrow> string" where
  "pad4 n = [digit (n div 1000), digit (n div 100), digit (n div 10), digit n]"

definition pad6 :: "int \<Rightarrow> string" where
  "pad6 n = [digit (n div 100000), digit (n div 10000), digit (n div 1000),
             digit (n div 100), digit (n div 10), digit n]"

text \<open>
  \<open>Date.prototype.toISOString\<close> of ECMAScript on a time value (milliseconds since
  1970-01-01T00:00:00Z, proleptic Gregorian calendar, UTC): \<open>YYYY-MM-DDTHH:mm:ss.sssZ\<close>,
  with the expanded year \<open>\<plusminus>YYYYYY\<close> outside 0..9999. The civil date is computed
  from the day number by eras of 400 years (146097 days), March-based.
\<close>

definition msPerDay :: int where
  "msPerDay = 86400000"

definition civil_from_days :: "int \<Rightarrow> int \<times> int \<times> int" where
  "civil_from_days days =
     (let z = days + 719468;
          era = z div 146097;
          doe = z mod 146097;
          yoe = (doe - doe div 1460 + doe div 36524 - doe div 146096) div 365;
          doy = doe - (365 * yoe + yoe div 4 - yoe div 100);
          mp = (5 * doy + 2) div 153;
          d = doy - (153 * mp + 2) div 5 + 1;
          m = (if mp < 10 then mp + 3 else mp - 9);
          y = yoe + era * 400 + (if m \<le> 2 then 1 else 0)
      in (y, m, d))"

definition year_string :: "int \<Rightarrow> string" where
  "year_string y =
     (if 0 \<le> y \<and> y \<le> 9999 then pad4 y
      else (if y < 0 then ''-'' else ''+'') @ pad6 \<bar>y\<bar>)"

definition toISOString :: "int \<Rightarrow> string" where
  "toISOString t =
     (let (y, m, d) = civil_from_days (t div msPerDay);
          ms = t mod msPerDay
      in year_string y @ ''-'' @ pad2 m @ ''-'' @ pad2 d @ ''T'' @
         pad2 (ms div 3600000) @ '':'' @ pad2 (ms div 60000 mod 60) @ '':'' @
         pad2 (ms div 1000 mod 60) @ ''.'' @ pad3 (ms mod 1000) @ ''Z'')"

text \<open>
  The shape of an ISO 8601 date-time in UTC as ECMAScript writes it: a year of four
  digits, or a sign and six digits, then \<open>-MM-DDTHH:mm:ss.sssZ\<close>.
\<close>

definition is_digit :: "char \<Rightarrow> bool" where
  "is_digit c = (c \<in> set ''0123456789'')"

definition digits :: "string \<Rightarrow> bool" where
  "digits s = list_all is_digit s"

definition time_shape :: "string \<Rightarrow> bool" where
  "time_shape s =
     (length s = 20 \<and>
      take 1 s = ''-'' \<and> digits (take 2 (drop 1 s)) \<and>
      take 1 (drop 3 s) = ''-'' \<and> digits (take 2 (drop 4 s)) \<and>
      take 1 (drop 6 s) = ''T'' \<and> digits (take 2 (drop 7 s)) \<and>
      take 1 (drop 9 s) = '':'' \<and> digits (take 2 (drop 10 s)) \<and>
      take 1 (drop 12 s) = '':'' \<and> digits (take 2 (drop 13 s)) \<and>
      take 1 (drop 15 s) = ''.'' \<and> digits (take 3 (drop 16 s)) \<and>
      drop 19 s = ''Z'')"

definition iso8601_shape :: "string \<Rightarrow> bool" where
  "iso8601_shape s =
     (if take 1 s = ''+'' \<or> take 1 s = ''-''
      then digits (take 6 (drop 1 s)) \<and> time_shape (drop 7 s)
      else digits (take 4 s) \<and> time_shape (drop 4 s))"

section \<open>Coercions of the JavaScript runtime\<close>

text \<open>
  The TypeScript interface \<open>ElementData\<close> is erased at run time, and the handlers cast
  the channel's reply to it unchecked, so the formatter is modelled on the values it
  really receives. Numbers are the integral ones.
\<close>

definition string_of_int :: "int \<Rightarrow> string" where
  "string_of_int i = (if i < 0 then ''-'' @ string_of_nat (nat (- i)) else string_of_nat (nat i))"

definition truthy :: "jsval \<Rightarrow> bool" where
  "truthy v =
     (case v of
        JUndefined \<Rightarrow> False
      | JNull \<Rightarrow> False
      | JBool b \<Rightarrow> b
      | JNum n \<Rightarrow> n \<noteq> 0
      | JStr s \<Rightarrow> s \<noteq> []
      | JArr _ \<Rightarrow> True
      | JObj _ \<Rightarrow> True)"

definition typeof :: "jsval \<Rightarrow> string" where
  "typeof v =
     (case v of
        JUndefined \<Rightarrow> ''undefined''
      | JNull \<Rightarrow> ''object''
      | JBool _ \<Rightarrow> ''boolean''
      | JNum _ \<Rightarrow> ''number''
      | JStr _ \<Rightarrow> ''string''
      | JArr _ \<Rightarrow> ''object''
      | JObj _ \<Rightarrow> ''object'')"

fun join :: "string \<Rightarrow> string list \<Rightarrow> string" where
  "join sep [] = []"
| "join sep [x] = x"
| "join sep (x # y # ys) = x @ sep @ join sep (y # ys)"

fun ToString :: "jsval \<Rightarrow> string" where
  "ToString JUndefined = ''undefined''"
| "ToString JNull = ''null''"
| "ToString (JBool b) = (if b then ''true'' else ''false'')"
| "ToString (JNum n) = string_of_int n"
| "ToString (JStr s) = s"
| "ToString (JArr xs) =
     join '','' (map (\<lambda>x. if x = JUndefined \<or> x = JNull then [] else ToString x) xs)"
| "ToString (JObj ps) = ''[object Object]''"

text \<open>
  \<open>el.name\<close> for the property names the formatter reads (\<open>tag\<close>, \<open>text\<close>,
  \<open>selector\<close>, \<open>id\<close>, \<open>classes\<close>, \<open>type\<close>, \<open>role\<close>): a TypeError on
  \<open>null\<close> and \<open>undefined\<close>, the own property of a plain object, and \<open>undefined\<close>
  on every other value (no prototype defines one of these names).
\<close>

abbreviation SQ :: string where
  "SQ \<equiv> [CHR 0x27]"

definition own :: "jsval \<Rightarrow> string \<Rightarrow> jsval" where
  "own v k = (case v of JObj ps \<Rightarrow> get_prop ps k | _ \<Rightarrow> JUndefined)"

definition get_member :: "jsval \<Rightarrow> string \<Rightarrow> thrown + jsval" where
  "get_member v k =
     (if v = JUndefined then
        Inl (TypeError (''Cannot read properties of undefined (reading '' @ SQ @ k @ SQ @ '')''))
      else if v = JNull then
        Inl (TypeError (''Cannot read properties of null (reading '' @ SQ @ k @ SQ @ '')''))
      else Inr (own v k))"

section \<open>The entity formatter\<close>

abbreviation NL :: string where
  "NL \<equiv> [CHR 0x0A]"

abbreviation DQ :: string where
  "DQ \<equiv> [CHR 0x22]"

text \<open>
  The preview of \<open>formatElementText\<close>: \<open>el.text.substring(0, 50)\<close>, then the marker
  \<open>...\<close> when \<open>el.text.length > 50\<close>. A truthy \<open>el.text\<close> that is not a string
  has no \<open>substring\<close> method, so the call throws.
\<close>

definition element_preview :: "jsval \<Rightarrow> thrown + string" where
  "element_preview text =
     (if truthy text then
        (case text of
           JStr s \<Rightarrow>
             (let truncated = take 50 s
              in Inr ('' - '' @ DQ @ truncated @ (if length s > 50 then ''...'' else []) @ DQ))
         | _ \<Rightarrow> Inl (TypeError ''el.text.substring is not a function''))
      else Inr [])"

definition detail_line :: "string \<Rightarrow> jsval \<Rightarrow> string" where
  "detail_line label v = (if truthy v then NL @ ''   - '' @ label @ '': '' @ ToString v else [])"

definition element_details :: "jsval \<Rightarrow> bool \<Rightarrow> string" where
  "element_details el includeDetails =
     (if includeDetails then
        NL @ ''   - CSS Selector: `'' @ ToString (own el ''selector'') @ ''`'' @
        detail_line ''ID'' (own el ''id'') @
        detail_line ''Classes'' (own el ''classes'') @
        detail_line ''Type'' (own el ''type'') @
        detail_line ''Role'' (own el ''role'')
      else '' (`'' @ ToString (own el ''selector'') @ ''`)'')"

text \<open>The text that one call of the \<open>forEach\<close> callback appends for \<open>el\<close> at \<open>index\<close>.\<close>

definition entry_head :: "nat \<Rightarrow> jsval \<Rightarrow> string" where
  "entry_head index tag =
     string_of_nat (index + 1) @ ''. **'' @
     ToString (if truthy tag then tag else JStr ''element'') @ ''**''"

definition element_entry :: "nat \<Rightarrow> jsval \<Rightarrow> bool \<Rightarrow> thrown + string" where
  "element_entry index el includeDetails =
     (case get_member el ''tag'' of
        Inl e \<Rightarrow> Inl e
      | Inr tag \<Rightarrow>
          (case element_preview (own el ''text'') of
             Inl e \<Rightarrow> Inl e
           | Inr preview \<Rightarrow>
               Inr (entry_head index tag @ preview @ element_details el includeDetails @ NL)))"

fun forEach_elements :: "nat \<Rightarrow> jsval list \<Rightarrow> bool \<Rightarrow> string \<Rightarrow> thrown + string" where
  "forEach_elements index [] includeDetails text = Inr text"
| "forEach_elements index (el # els) includeDetails text =
     (case element_entry index el includeDetails of
        Inl e \<Rightarrow> Inl e
      | Inr s \<Rightarrow> forEach_elements (index + 1) els includeDetails (text @ s))"

definition formatElementText :: "jsval list \<Rightarrow> bool \<Rightarrow> thrown + string" where
  "formatElementText elements includeDetails =
     (if length elements = 0 then Inr (''No interactive elements found.'' @ NL)
      else forEach_elements 0 elements includeDetails [])"

section \<open>The channel\<close>

text \<open>
  \<open>context.sendSocketMessage\<close> and \<open>captureAriaSnapshot\<close> are not part of these files.
  The world is the list of messages handed to \<open>sendSocketMessage\<close> so far; the channel
  answers a message as a function of that history, with a reply or with the error it
  rejects with. The capture routine is a parameter: it sends what it sends and returns
  content blocks or throws.
\<close>

type_synonym world = "(string \<times> jsval) list"

record Context =
  remote :: "world \<Rightarrow> string \<Rightarrow> jsval \<Rightarrow> thrown + jsval"
  aria :: "world \<Rightarrow> (thrown + content list) \<times> world"

definition sendSocketMessage ::
  "Context \<Rightarrow> string \<Rightarrow> jsval \<Rightarrow> world \<Rightarrow> (thrown + jsval) \<times> world" where
  "sendSocketMessage ctx type payload w = (remote ctx w type payload, w @ [(type, payload)])"

definition captureAriaSnapshot :: "Context \<Rightarrow> world \<Rightarrow> (thrown + content list) \<times> world" where
  "captureAriaSnapshot ctx w = aria ctx w"

section \<open>The operations on the remote surface\<close>

definition enumerateElements_handle ::
  "Context \<Rightarrow> jsval \<Rightarrow> world \<Rightarrow> (thrown + content list) \<times> world" where
  "enumerateElements_handle ctx params w =
     (case EnumerateElementsSchema_parse params of
        Inl is \<Rightarrow> (Inl (ZodError is), w)
      | Inr validatedParams \<Rightarrow>
          (case sendSocketMessage ctx ''browser_enumerate_elements''
                  (JObj [(''includeHidden'',
                          JBool (case includeHidden validatedParams of
                                   None \<Rightarrow> False | Some b \<Rightarrow> b))]) w of
             (Inl e, w') \<Rightarrow> (Inl e, w')
           | (Inr rawElements, w') \<Rightarrow>
               (let text = ''## Enumerated Interactive Elements'' @ NL @ NL
                in (case rawElements of
                      JArr (el # els) \<Rightarrow>
                        (case formatElementText (el # els) True of
                           Inl e \<Rightarrow> (Inl e, w')
                         | Inr t \<Rightarrow> (Inr [TextContent (text @ t)], w'))
                    | _ \<Rightarrow>
                        (Inr [TextContent
                               (text @
                                ''No interactive elements found or enumeration not supported.'' @ NL @
                                (if truthy rawElements \<and> typeof rawElements = ''object'' then
                                   ''Note: Received data of type '' @ typeof rawElements @
                                   '' - extension may need to implement this handler.'' @ NL
                                 else []))], w')))))"

definition clickBySelector_handle ::
  "Context \<Rightarrow> jsval \<Rightarrow> world \<Rightarrow> (thrown + content list) \<times> world" where
  "clickBySelector_handle ctx params w =
     (case ClickBySelectorSchema_parse params of
        Inl is \<Rightarrow> (Inl (ZodError is), w)
      | Inr validatedParams \<Rightarrow>
          (case sendSocketMessage ctx ''browser_click_by_selector''
                  (JObj [(''selector'', JStr (click_selector validatedParams))]) w of
             (Inl e, w') \<Rightarrow> (Inl e, w')
           | (Inr _, w') \<Rightarrow>
               (case captureAriaSnapshot ctx w' of
                  (Inl e, w'') \<Rightarrow> (Inl e, w'')
                | (Inr snapshot, w'') \<Rightarrow>
                    (Inr (TextContent
                            (''Clicked element with selector: '' @ click_selector validatedParams @
                             (case click_description validatedParams of
                                None \<Rightarrow> []
                              | Some d \<Rightarrow> if d \<noteq> [] then '' ('' @ d @ '')'' else []))
                          # snapshot), w''))))"

definition enumerate_block :: "Context \<Rightarrow> world \<Rightarrow> (thrown + content) \<times> world" where
  "enumerate_block ctx w =
     (case sendSocketMessage ctx ''browser_enumerate_elements''
             (JObj [(''includeHidden'', JBool False)]) w of
        (Inl e, w') \<Rightarrow> (Inl e, w')
      | (Inr rawElements, w') \<Rightarrow>
          (let elementsText = NL @ ''## Interactive Elements'' @ NL @ NL
           in (case rawElements of
                 JArr (el # els) \<Rightarrow>
                   (case formatElementText (el # els) False of
                      Inl e \<Rightarrow> (Inl e, w')
                    | Inr t \<Rightarrow> (Inr (TextContent (elementsText @ t)), w'))
               | _ \<Rightarrow>
                   (Inr (TextContent (elementsText @ ''No interactive elements found.'' @ NL)),
                    w'))))"

definition enhancedSnapshot_handle ::
  "Context \<Rightarrow> jsval \<Rightarrow> world \<Rightarrow> (thrown + content list) \<times> world" where
  "enhancedSnapshot_handle ctx params w =
     (case EnhancedSnapshotSchema_parse params of
        Inl is \<Rightarrow> (Inl (ZodError is), w)
      | Inr validatedParams \<Rightarrow>
          (case sendSocketMessage ctx ''browser_screenshot'' (JObj []) w of
             (Inl e, w1) \<Rightarrow> (Inl e, w1)
           | (Inr screenshot, w1) \<Rightarrow>
               (case captureAriaSnapshot ctx w1 of
                  (Inl e, w2) \<Rightarrow> (Inl e, w2)
                | (Inr snapshot, w2) \<Rightarrow>
                    (let content = ImageContent screenshot ''image/png'' # snapshot
                     in if includeElements validatedParams = Some True then
                          (case enumerate_block ctx w2 of
                             (Inl error, w3) \<Rightarrow> (Inr content, w3)
                           | (Inr block, w3) \<Rightarrow> (Inr (content @ [block]), w3))
                        else (Inr content, w2)))))"

section \<open>The store of learned selectors\<close>

text \<open>
  \<open>learnedSelectors\<close> is one module-level \<open>Map\<close> object. A \<open>Map\<close> keeps its
  entries in insertion order; \<open>set\<close> on a key that is present replaces the value where
  the entry stands, and appends the entry otherwise. The timestamp is a time value
  (milliseconds since the epoch), as \<open>new Date()\<close> holds it.
\<close>

record LearnedSelector =
  selector :: string
  notes' :: "string option"
  timestamp :: int

fun Map_set :: "(string \<times> 'v) list \<Rightarrow> string \<Rightarrow> 'v \<Rightarrow> (string \<times> 'v) list" where
  "Map_set [] k v = [(k, v)]"
| "Map_set ((k', v') # m) k v = (if k' = k then (k, v) # m else (k', v') # Map_set m k v)"

definition Map_get :: "(string \<times> 'v) list \<Rightarrow> string \<Rightarrow> 'v option" where
  "Map_get m k = map_of m k"

definition Map_size :: "(string \<times> 'v) list \<Rightarrow> nat" where
  "Map_size m = length m"

text \<open>
  Objects are shared by reference: the heap gives the contents of the \<open>Map\<close> object at
  each reference, and a method call on a reference acts on the heap there. The module
  creates its \<open>Map\<close> once; \<open>getLearnedSelectorsMap\<close> returns the reference it holds.
\<close>

type_synonym ref = nat

type_synonym heap = "ref \<Rightarrow> (string \<times> LearnedSelector) list"

definition learnedSelectors :: ref where
  "learnedSelectors = 0"

definition module_init :: heap where
  "module_init = (\<lambda>r. [])"

definition getLearnedSelectorsMap :: ref where
  "getLearnedSelectorsMap = learnedSelectors"

definition set_at :: "heap \<Rightarrow> ref \<Rightarrow> string \<Rightarrow> LearnedSelector \<Rightarrow> heap" where
  "set_at h r k v = h(r := Map_set (h r) k v)"

definition clear_at :: "heap \<Rightarrow> ref \<Rightarrow> heap" where
  "clear_at h r = h(r := [])"

section \<open>Teaching and listing\<close>

text \<open>U+2713 CHECK MARK, the first character of the confirmation line, as its UTF-8 bytes.\<close>

definition check_mark :: string where
  "check_mark = [CHR 0xE2, CHR 0x9C, CHR 0x93]"

definition teachSelector_handle ::
  "int \<Rightarrow> jsval \<Rightarrow> heap \<Rightarrow> (thrown + content list) \<times> heap" where
  "teachSelector_handle now params h =
     (case TeachSelectorSchema_parse params of
        Inl is \<Rightarrow> (Inl (ZodError is), h)
      | Inr validatedParams \<Rightarrow>
          (Inr [TextContent
                 (check_mark @ '' Learned selector for '' @ DQ @
                  actionDescription validatedParams @ DQ @ '': `'' @
                  teach_selector validatedParams @ ''`'' @
                  (case teach_notes validatedParams of
                     None \<Rightarrow> []
                   | Some n \<Rightarrow> if n \<noteq> [] then NL @ ''  Notes: '' @ n else []))],
           set_at h learnedSelectors (actionDescription validatedParams)
             \<lparr> selector = teach_selector validatedParams,
               notes' = teach_notes validatedParams,
               timestamp = now \<rparr>))"

text \<open>The argument object \<open>{actionDescription, selector, notes?}\<close> of a teach call.\<close>

definition teach_arguments :: "string \<Rightarrow> string \<Rightarrow> string option \<Rightarrow> jsval" where
  "teach_arguments description target n =
     JObj ([(''actionDescription'', JStr description), (''selector'', JStr target)] @
           (case n of None \<Rightarrow> [] | Some s \<Rightarrow> [(''notes'', JStr s)]))"

text \<open>The text that one call of the \<open>forEach\<close> callback of the listing appends.\<close>

definition learned_bullet :: "string \<Rightarrow> LearnedSelector \<Rightarrow> string" where
  "learned_bullet key value =
     ''- **'' @ key @ ''**'' @ NL @
     ''  - Selector: `'' @ selector value @ ''`'' @ NL @
     (case notes' value of
        None \<Rightarrow> []
      | Some n \<Rightarrow> if n \<noteq> [] then ''  - Notes: '' @ n @ NL else []) @
     ''  - Taught: '' @ toISOString (timestamp value) @ NL"

definition getLearnedSelectors_handle :: "heap \<Rightarrow> (thrown + content list) \<times> heap" where
  "getLearnedSelectors_handle h =
     (let text = ''## Learned CSS Selectors'' @ NL @ NL
      in (Inr [TextContent
                (if Map_size (h learnedSelectors) = 0 then
                   text @ ''No selectors have been taught yet.'' @ NL @ NL @
                   ''Use the `browser_teach_selector` tool to teach the model which selectors to use for specific actions.''
                 else
                   foldl (\<lambda>text (key, value). text @ learned_bullet key value) text
                     (h learnedSelectors))], h))"

section \<open>The resource document\<close>

text \<open>
  \<open>JSON.stringify(data, null, 2)\<close> of ECMAScript: a property whose value is
  \<open>undefined\<close> is left out of an object, an \<open>undefined\<close> array element is written
  \<open>null\<close>; with a gap, members stand on lines of their own, indented, and a colon is
  followed by one space.
\<close>

definition hex_digit :: "nat \<Rightarrow> char" where
  "hex_digit n = ''0123456789abcdef'' ! (n mod 16)"

definition json_escape :: "char \<Rightarrow> string" where
  "json_escape c =
     (if c = CHR 0x08 then [CHR 0x5C, CHR ''b'']
      else if c = CHR 0x09 then [CHR 0x5C, CHR ''t'']
      else if c = CHR 0x0A then [CHR 0x5C, CHR ''n'']
      else if c = CHR 0x0C then [CHR 0x5C, CHR ''f'']
      else if c = CHR 0x0D then [CHR 0x5C, CHR ''r'']
      else if c = CHR 0x22 then [CHR 0x5C, CHR 0x22]
      else if c = CHR 0x5C then [CHR 0x5C, CHR 0x5C]
      else if (of_char c :: nat) < 32 then
        [CHR 0x5C, CHR ''u'', CHR ''0'', CHR ''0'',
         hex_digit (of_char c div 16), hex_digit (of_char c)]
      else [c])"

definition QuoteJSONString :: "string \<Rightarrow> string" where
  "QuoteJSONString s = DQ @ concat (map json_escape s) @ DQ"

abbreviation gap :: string where
  "gap \<equiv> ''  ''"

fun SerializeJSONProperty :: "string \<Rightarrow> jsval \<Rightarrow> string option"
  and object_members :: "string \<Rightarrow> (string \<times> jsval) list \<Rightarrow> string list"
  and array_items :: "string \<Rightarrow> jsval list \<Rightarrow> string list"
where
  "SerializeJSONProperty indent JUndefined = None"
| "SerializeJSONProperty indent JNull = Some ''null''"
| "SerializeJSONProperty indent (JBool b) = Some (if b then ''true'' else ''false'')"
| "SerializeJSONProperty indent (JNum n) = Some (string_of_int n)"
| "SerializeJSONProperty indent (JStr s) = Some (QuoteJSONString s)"
| "SerializeJSONProperty indent (JArr xs) =
     Some (let partial = array_items (indent @ gap) xs
           in if partial = [] then ''[]''
              else ''['' @ NL @ indent @ gap @
                   join ('','' @ NL @ indent @ gap) partial @ NL @ indent @ '']'')"
| "SerializeJSONProperty indent (JObj ps) =
     Some (let partial = object_members (indent @ gap) ps
           in if partial = [] then ''{}''
              else ''{'' @ NL @ indent @ gap @
                   join ('','' @ NL @ indent @ gap) partial @ NL @ indent @ ''}'')"
| "object_members indent [] = []"
| "object_members indent ((k, v) # ps) =
     (case SerializeJSONProperty indent v of
        None \<Rightarrow> object_members indent ps
      | Some str \<Rightarrow> (QuoteJSONString k @ '': '' @ str) # object_members indent ps)"
| "array_items indent [] = []"
| "array_items indent (x # xs) =
     (case SerializeJSONProperty indent x of None \<Rightarrow> ''null'' | Some str \<Rightarrow> str)
     # array_items indent xs"

definition JSON_stringify :: "jsval \<Rightarrow> string" where
  "JSON_stringify v = (case SerializeJSONProperty [] v of None \<Rightarrow> ''undefined'' | Some str \<Rightarrow> str)"

text \<open>
  \<open>data[key] = value\<close> on the plain object \<open>data\<close>, for a \<open>value\<close> that is an
  object. The key \<open>__proto__\<close> is the accessor of \<open>Object.prototype\<close>: the assignment
  replaces the prototype of \<open>data\<close> and creates no own property. Own property keys are
  enumerated with the array indices first, in ascending order, then the other strings in
  the order of their creation; the list of own properties is kept in that order.
\<close>

definition digits_value :: "string \<Rightarrow> int" where
  "digits_value k = foldl (\<lambda>n c. 10 * n + (of_char c - 48)) 0 k"

definition is_array_index :: "string \<Rightarrow> bool" where
  "is_array_index k =
     (k \<noteq> [] \<and> digits k \<and>
      (k = ''0'' \<or> hd k \<noteq> CHR ''0'') \<and> digits_value k \<le> 4294967294)"

fun insert_index :: "string \<Rightarrow> jsval \<Rightarrow> (string \<times> jsval) list \<Rightarrow> (string \<times> jsval) list" where
  "insert_index k v [] = [(k, v)]"
| "insert_index k v ((k', v') # ps) =
     (if is_array_index k' \<and> digits_value k' < digits_value k
      then (k', v') # insert_index k v ps
      else (k, v) # (k', v') # ps)"

definition object_set :: "(string \<times> jsval) list \<Rightarrow> string \<Rightarrow> jsval \<Rightarrow> (string \<times> jsval) list" where
  "object_set data k v =
     (if k = ''__proto__'' then data
      else if map_of data k \<noteq> None then map (\<lambda>(k', v'). if k' = k then (k', v) else (k', v')) data
      else if is_array_index k then insert_index k v data
      else data @ [(k, v)])"

record ResourceResult =
  res_uri :: string
  res_mimeType :: string
  res_text :: string

text \<open>The object literal that \<open>read\<close> stores under each key.\<close>

definition resource_entry :: "LearnedSelector \<Rightarrow> jsval" where
  "resource_entry value =
     JObj [(''selector'', JStr (selector value)),
           (''notes'', (case notes' value of None \<Rightarrow> JUndefined | Some n \<Rightarrow> JStr n)),
           (''timestamp'', JStr (toISOString (timestamp value)))]"

definition resource_data :: "(string \<times> LearnedSelector) list \<Rightarrow> (string \<times> jsval) list" where
  "resource_data selectors =
     foldl (\<lambda>data (key, value). object_set data key (resource_entry value)) [] selectors"

definition createSelectorsResource_read :: "ref \<Rightarrow> heap \<Rightarrow> ResourceResult list \<times> heap" where
  "createSelectorsResource_read getLearnedSelectors h =
     (let selectors = h getLearnedSelectors;
          data = resource_data selectors
      in ([\<lparr> res_uri = ''selectors://learned'', res_mimeType = ''application/json'',
             res_text = JSON_stringify (JObj data) \<rparr>], h))"

section \<open>Properties of the store\<close>

lemma map_of_Map_set: "map_of (Map_set m k v) = (map_of m)(k \<mapsto> v)"
  by (induction m) (auto simp: fun_eq_iff)

lemma keys_Map_set:
  "map fst (Map_set m k v) = (if k \<in> set (map fst m) then map fst m else map fst m @ [k])"
  by (induction m) (auto simp: rev_image_eqI)

lemma distinct_Map_set: "distinct (map fst m) \<Longrightarrow> distinct (map fst (Map_set m k v))"
  by (simp add: keys_Map_set)

lemma count_key_distinct:
  "distinct (map fst m) \<Longrightarrow> k \<in> set (map fst m) \<Longrightarrow> length (filter (\<lambda>(k', v). k' = k) m) = 1"
proof (induction m)
  case Nil
  then show ?case by simp
next
  case (Cons p m)
  show ?case
  proof (cases "fst p = k")
    case True
    with Cons.prems have "k \<notin> fst ` set m" by auto
    then have "filter (\<lambda>(k', v). k' = k) m = []"
      by (auto simp: filter_empty_conv rev_image_eqI)
    with True show ?thesis by (cases p) simp
  next
    case False
    with Cons show ?thesis by (cases p) auto
  qed
qed

lemma parse_teach_arguments:
  "TeachSelectorSchema_parse (teach_arguments x t n) =
     Inr \<lparr> actionDescription = x, teach_selector = t, teach_notes = n \<rparr>"
  by (cases n)
     (simp_all add: TeachSelectorSchema_parse_def teach_arguments_def get_prop_def z_string_def
        z_optional_def)

lemma teach_store:
  "snd (teachSelector_handle now (teach_arguments x t n) h) =
     set_at h learnedSelectors x \<lparr> selector = t, notes' = n, timestamp = now \<rparr>"
  by (simp add: teachSelector_handle_def parse_teach_arguments)

text \<open>
  Claim C2. Teaching target \<open>a\<close> and then target \<open>b\<close> under the same description
  \<open>x\<close> leaves exactly one entry keyed \<open>x\<close>, and it holds \<open>b\<close> (with the notes and
  the time of the second call). The key is the description as given, character for
  character; the keys of the store stay pairwise distinct, and no entry under another
  key changes. The store is any \<open>Map\<close>, that is, its keys are distinct.
\<close>

theorem teach_twice_last_write_wins:
  assumes "distinct (map fst (h learnedSelectors))"
  shows "let h1 = snd (teachSelector_handle now1 (teach_arguments x a na) h);
             h2 = snd (teachSelector_handle now2 (teach_arguments x b nb) h1)
         in length (filter (\<lambda>(k, v). k = x) (h2 learnedSelectors)) = 1 \<and>
            Map_get (h2 learnedSelectors) x =
              Some \<lparr> selector = b, notes' = nb, timestamp = now2 \<rparr> \<and>
            distinct (map fst (h2 learnedSelectors)) \<and>
            (\<forall>y. y \<noteq> x \<longrightarrow> Map_get (h2 learnedSelectors) y = Map_get (h learnedSelectors) y)"
proof -
  let ?m1 = "Map_set (h learnedSelectors) x \<lparr> selector = a, notes' = na, timestamp = now1 \<rparr>"
  let ?m2 = "Map_set ?m1 x \<lparr> selector = b, notes' = nb, timestamp = now2 \<rparr>"
  have d: "distinct (map fst ?m2)"
    using assms by (intro distinct_Map_set)
  have k: "x \<in> set (map fst ?m2)"
    by (simp add: keys_Map_set)
  have c: "length (filter (\<lambda>(k, v). k = x) ?m2) = 1"
    using d k by (rule count_key_distinct)
  have g: "map_of ?m2 =
      (map_of (h learnedSelectors))(x \<mapsto> \<lparr> selector = b, notes' = nb, timestamp = now2 \<rparr>)"
    by (simp add: map_of_Map_set)
  show ?thesis
    using c d g by (simp add: teach_store set_at_def Map_get_def Let_def)
qed

theorem teach_twice_last_write_wins_witness:
  "let h1 = snd (teachSelector_handle 1 (teach_arguments ''x'' ''a'' None) module_init);
       h2 = snd (teachSelector_handle 2 (teach_arguments ''x'' ''b'' None) h1)
   in h2 learnedSelectors = [(''x'', \<lparr> selector = ''b'', notes' = None, timestamp = 2 \<rparr>)]"
  using teach_twice_last_write_wins [of module_init 1 "''x''" "''a''" None 2 "''b''" None]
  by (simp add: teach_store set_at_def module_init_def Let_def)

section \<open>Properties of validation\<close>

text \<open>
  Claim C4. An argument object from which both required fields of the teach schema are
  missing is rejected by one \<open>ZodError\<close> whose issue list names both, the path
  \<open>actionDescription\<close> and the path \<open>selector\<close>, each with the message
  \<open>Required\<close>; whatever is wrong with the optional \<open>notes\<close> follows them. The store
  is left as it was. The teach schema is the only one with two required fields.
\<close>

theorem validation_enumerates_both_missing_fields:
  assumes "get_prop ps ''actionDescription'' = JUndefined"
    and "get_prop ps ''selector'' = JUndefined"
  shows "teachSelector_handle now (JObj ps) h =
           (Inl (ZodError
              (\<lparr> code = ''invalid_type'', expected = ''string'', received = ''undefined'',
                 path = [''actionDescription''], message = ''Required'' \<rparr> #
               \<lparr> code = ''invalid_type'', expected = ''string'', received = ''undefined'',
                 path = [''selector''], message = ''Required'' \<rparr> #
               issues (z_optional z_string [''notes''] (get_prop ps ''notes'')))), h)"
  using assms
  by (simp add: teachSelector_handle_def TeachSelectorSchema_parse_def z_string_def issues_def
      invalid_type_def getParsedType_def Let_def split: sum.splits)

theorem validation_enumerates_both_missing_fields_witness:
  "teachSelector_handle 0 (JObj []) module_init =
     (Inl (ZodError
        [\<lparr> code = ''invalid_type'', expected = ''string'', received = ''undefined'',
            path = [''actionDescription''], message = ''Required'' \<rparr>,
         \<lparr> code = ''invalid_type'', expected = ''string'', received = ''undefined'',
            path = [''selector''], message = ''Required'' \<rparr>]), module_init)"
  using validation_enumerates_both_missing_fields [of "[]" 0 module_init]
  by (simp add: get_prop_def z_optional_def issues_def)

section \<open>Properties of the date text\<close>

lemma digit_is_digit: "is_digit (digit n)"
proof -
  have "nat (n mod 10) < length ''0123456789''" by simp
  then have "''0123456789'' ! nat (n mod 10) \<in> set ''0123456789''" by (rule nth_mem)
  then show ?thesis by (simp only: is_digit_def digit_def)
qed

lemma digits_pad2: "digits (pad2 n)"
  by (simp add: digits_def pad2_def digit_is_digit)

lemma digits_pad3: "digits (pad3 n)"
  by (simp add: digits_def pad3_def digit_is_digit)

lemma digits_pad4: "digits (pad4 n)"
  by (simp add: digits_def pad4_def digit_is_digit)

lemma digits_pad6: "digits (pad6 n)"
  by (simp add: digits_def pad6_def digit_is_digit)

lemma length_pad:
  "length (pad2 n) = 2" "length (pad3 n) = 3" "length (pad4 n) = 4" "length (pad6 n) = 6"
  by (simp_all add: pad2_def pad3_def pad4_def pad6_def)

lemma time_shape_pads:
  "time_shape (''-'' @ pad2 a @ ''-'' @ pad2 b @ ''T'' @ pad2 c @ '':'' @ pad2 d @ '':'' @ pad2 e @ ''.'' @ pad3 f @ ''Z'')"
  by (simp add: time_shape_def length_pad digits_pad2 digits_pad3)

lemma pad4_no_sign: "take 1 (pad4 n) \<noteq> ''+''" "take 1 (pad4 n) \<noteq> ''-''"
  using digit_is_digit [of "n div 1000"] by (auto simp: pad4_def is_digit_def)

lemma iso8601_shape_toISOString: "iso8601_shape (toISOString t)"
proof -
  obtain y m d where c: "civil_from_days (t div msPerDay) = (y, m, d)"
    by (cases "civil_from_days (t div msPerDay)") auto
  let ?rest = "''-'' @ pad2 m @ ''-'' @ pad2 d @ ''T'' @
         pad2 (t mod msPerDay div 3600000) @ '':'' @ pad2 (t mod msPerDay div 60000 mod 60) @ '':'' @
         pad2 (t mod msPerDay div 1000 mod 60) @ ''.'' @ pad3 (t mod msPerDay mod 1000) @ ''Z''"
  have e: "toISOString t = year_string y @ ?rest"
    by (simp add: toISOString_def c Let_def)
  have r: "time_shape ?rest" by (rule time_shape_pads)
  show ?thesis
  proof (cases "0 \<le> y \<and> y \<le> 9999")
    case True
    then have ys: "year_string y = pad4 y" by (simp add: year_string_def)
    show ?thesis
      unfolding e ys iso8601_shape_def using r pad4_no_sign [of y]
      by (simp add: length_pad digits_pad4)
  next
    case False
    then obtain sg where ys: "year_string y = sg @ pad6 \<bar>y\<bar>" and sg: "sg = ''+'' \<or> sg = ''-''"
      by (auto simp: year_string_def)
    show ?thesis
      unfolding e ys iso8601_shape_def using r sg
      by (auto simp: length_pad digits_pad6)
  qed
qed

section \<open>Properties of the entity formatter\<close>

lemma forEach_elements_Inr:
  "forEach_elements i els d acc = Inr out \<Longrightarrow>
     \<exists>entries. out = acc @ concat entries \<and> length entries = length els \<and>
       (\<forall>j<length els. element_entry (i + j) (els ! j) d = Inr (entries ! j))"
proof (induction els arbitrary: i acc)
  case Nil
  then show ?case by simp
next
  case (Cons el els)
  from Cons.prems obtain s where s: "element_entry i el d = Inr s"
    and r: "forEach_elements (i + 1) els d (acc @ s) = Inr out"
    by (auto split: sum.splits)
  from Cons.IH [OF r] obtain entries where e: "out = (acc @ s) @ concat entries"
    "length entries = length els"
    "\<forall>j<length els. element_entry (i + 1 + j) (els ! j) d = Inr (entries ! j)"
    by blast
  have "\<forall>j<length (el # els). element_entry (i + j) ((el # els) ! j) d = Inr ((s # entries) ! j)"
  proof (intro allI impI)
    fix j assume "j < length (el # els)"
    then show "element_entry (i + j) ((el # els) ! j) d = Inr ((s # entries) ! j)"
      using s e(3) by (cases j) auto
  qed
  with e(1,2) show ?case
    by (intro exI [of _ "s # entries"]) simp
qed

lemma element_entry_text:
  assumes "own el ''text'' = JStr t" and "t \<noteq> []"
  shows "element_entry i el d =
           Inr (entry_head i (own el ''tag'') @ '' - '' @ DQ @ take 50 t @
                (if 50 < length t then ''...'' else []) @ DQ @ element_details el d @ NL)"
proof -
  from assms(1) have "el \<noteq> JUndefined" "el \<noteq> JNull" by (auto simp: own_def)
  then have "get_member el ''tag'' = Inr (own el ''tag'')" by (simp add: get_member_def)
  then show ?thesis using assms
    by (simp add: element_entry_def element_preview_def truthy_def Let_def)
qed

text \<open>
  Claim C5. When the formatter returns, its text is the concatenation of one entry per
  entity, in order. For an entity whose \<open>text\<close> is a string of exactly 50 characters
  the entry quotes the whole text and no marker follows it; for 51 characters or more
  the entry quotes the first 50 characters followed by \<open>...\<close>; and for any
  non-empty text of at most 50 characters, where nothing is cut, no marker is added.
\<close>

theorem preview_truncated_at_50:
  assumes "formatElementText els d = Inr out" and "els \<noteq> []"
  shows "\<exists>entries. out = concat entries \<and> length entries = length els \<and>
           (\<forall>i<length els. \<forall>t. own (els ! i) ''text'' = JStr t \<longrightarrow>
              (length t = 50 \<longrightarrow>
                 entries ! i = entry_head i (own (els ! i) ''tag'') @ '' - '' @ DQ @ t @ DQ @
                               element_details (els ! i) d @ NL) \<and>
              (51 \<le> length t \<longrightarrow>
                 entries ! i = entry_head i (own (els ! i) ''tag'') @ '' - '' @ DQ @ take 50 t @
                               ''...'' @ DQ @ element_details (els ! i) d @ NL) \<and>
              (t \<noteq> [] \<and> length t \<le> 50 \<longrightarrow>
                 entries ! i = entry_head i (own (els ! i) ''tag'') @ '' - '' @ DQ @ t @ DQ @
                               element_details (els ! i) d @ NL))"
proof -
  from assms have "forEach_elements 0 els d [] = Inr out"
    by (simp add: formatElementText_def)
  from forEach_elements_Inr [OF this] obtain entries where e: "out = concat entries"
    "length entries = length els"
    "\<forall>j<length els. element_entry j (els ! j) d = Inr (entries ! j)"
    by auto
  have "\<forall>i<length els. \<forall>t. own (els ! i) ''text'' = JStr t \<longrightarrow>
              (length t = 50 \<longrightarrow>
                 entries ! i = entry_head i (own (els ! i) ''tag'') @ '' - '' @ DQ @ t @ DQ @
                               element_details (els ! i) d @ NL) \<and>
              (51 \<le> length t \<longrightarrow>
                 entries ! i = entry_head i (own (els ! i) ''tag'') @ '' - '' @ DQ @ take 50 t @
                               ''...'' @ DQ @ element_details (els ! i) d @ NL) \<and>
              (t \<noteq> [] \<and> length t \<le> 50 \<longrightarrow>
                 entries ! i = entry_head i (own (els ! i) ''tag'') @ '' - '' @ DQ @ t @ DQ @
                               element_details (els ! i) d @ NL)"
  proof (intro allI impI)
    fix i t assume i: "i < length els" and t: "own (els ! i) ''text'' = JStr t"
    from e(3) i have en: "element_entry i (els ! i) d = Inr (entries ! i)" by simp
    have a: "length t = 50 \<longrightarrow>
                 entries ! i = entry_head i (own (els ! i) ''tag'') @ '' - '' @ DQ @ t @ DQ @
                               element_details (els ! i) d @ NL"
      using en element_entry_text [OF t, of i d] by (cases t) auto
    have b: "51 \<le> length t \<longrightarrow>
                 entries ! i = entry_head i (own (els ! i) ''tag'') @ '' - '' @ DQ @ take 50 t @
                               ''...'' @ DQ @ element_details (els ! i) d @ NL"
      using en element_entry_text [OF t, of i d] by (cases t) auto
    have c: "t \<noteq> [] \<and> length t \<le> 50 \<longrightarrow>
                 entries ! i = entry_head i (own (els ! i) ''tag'') @ '' - '' @ DQ @ t @ DQ @
                               element_details (els ! i) d @ NL"
      using en element_entry_text [OF t, of i d] by auto
    from a b c show "(length t = 50 \<longrightarrow>
                 entries ! i = entry_head i (own (els ! i) ''tag'') @ '' - '' @ DQ @ t @ DQ @
                               element_details (els ! i) d @ NL) \<and>
              (51 \<le> length t \<longrightarrow>
                 entries ! i = entry_head i (own (els ! i) ''tag'') @ '' - '' @ DQ @ take 50 t @
                               ''...'' @ DQ @ element_details (els ! i) d @ NL) \<and>
              (t \<noteq> [] \<and> length t \<le> 50 \<longrightarrow>
                 entries ! i = entry_head i (own (els ! i) ''tag'') @ '' - '' @ DQ @ t @ DQ @
                               element_details (els ! i) d @ NL)" by blast
  qed
  with e(1,2) show ?thesis by blast
qed


theorem preview_truncated_at_50_witness:
  "formatElementText
     [JObj [(''text'', JStr (replicate 50 (CHR ''x''))), (''selector'', JStr ''#a'')],
      JObj [(''text'', JStr (replicate 51 (CHR ''x''))), (''selector'', JStr ''#b'')]] False =
   Inr (''1. **element** - '' @ DQ @ replicate 50 (CHR ''x'') @ DQ @ '' (`#a`)'' @ NL @
        ''2. **element** - '' @ DQ @ replicate 50 (CHR ''x'') @ ''...'' @ DQ @ '' (`#b`)'' @ NL)"
  (is "?lhs = ?rhs")
proof -
  have e: "?lhs = ?rhs" by code_simp
  have n: "[JObj [(''text'', JStr (replicate 50 (CHR ''x''))), (''selector'', JStr ''#a'')],
      JObj [(''text'', JStr (replicate 51 (CHR ''x''))), (''selector'', JStr ''#b'')]] \<noteq> []"
    by simp
  from preview_truncated_at_50 [OF e n] show ?thesis by (simp only: e)
qed

section \<open>Properties of the operations on the remote surface\<close>

text \<open>
  Claim C6. When the arguments validate and the remote surface answers the enumerate
  message with the empty array, the operation returns one text block: the heading, the
  sentence \<open>No interactive elements found or enumeration not supported.\<close> and a note
  (an array is an object). The formatter itself, given the empty list, returns the
  sentence \<open>No interactive elements found.\<close> Neither text is empty.
\<close>

theorem empty_entity_list_sentence:
  assumes "EnumerateElementsSchema_parse params = Inr v"
    and "remote ctx w ''browser_enumerate_elements''
           (JObj [(''includeHidden'', JBool (case includeHidden v of None \<Rightarrow> False | Some b \<Rightarrow> b))]) =
         Inr (JArr [])"
  shows "fst (enumerateElements_handle ctx params w) =
           Inr [TextContent
                 (''## Enumerated Interactive Elements'' @ NL @ NL @
                  ''No interactive elements found'' @ '' or enumeration not supported.'' @ NL @
                  ''Note: Received data of type object - extension may need to implement this handler.'' @ NL)] \<and>
         formatElementText [] d = Inr (''No interactive elements found'' @ ''.'' @ NL)"
  using assms
  by (simp add: enumerateElements_handle_def sendSocketMessage_def formatElementText_def
      truthy_def typeof_def)

theorem empty_entity_list_sentence_witness:
  "fst (enumerateElements_handle
          \<lparr> remote = (\<lambda>w t p. Inr (JArr [])), aria = (\<lambda>w. (Inr [], w)) \<rparr> (JObj []) []) =
     Inr [TextContent
           (''## Enumerated Interactive Elements'' @ NL @ NL @
            ''No interactive elements found or enumeration not supported.'' @ NL @
            ''Note: Received data of type object - extension may need to implement this handler.'' @ NL)]"
proof -
  have p: "EnumerateElementsSchema_parse (JObj []) = Inr \<lparr> includeHidden = None \<rparr>"
    by (simp add: EnumerateElementsSchema_parse_def get_prop_def z_optional_def)
  from empty_entity_list_sentence [OF p, of "\<lparr> remote = (\<lambda>w t p. Inr (JArr [])), aria = (\<lambda>w. (Inr [], w)) \<rparr>" "[]"]
  show ?thesis by simp
qed

text \<open>
  Claim C3. In the enhanced capture with \<open>includeElements = true\<close>, once the
  screenshot and the structural capture have succeeded, a failure of the enumerate
  message does not fail the operation: the result is the image block followed by the
  blocks of the capture, with no elements block. Every other failure of a remote call
  is the result of its operation: the enumerate message of the enumerate operation, the
  click message and the capture of the click operation, and the screenshot message and
  the capture of the enhanced capture itself.
\<close>

theorem enumeration_failure_absorbed:
  "(EnhancedSnapshotSchema_parse params = Inr v \<and> includeElements v = Some True \<and>
    sendSocketMessage ctx ''browser_screenshot'' (JObj []) w = (Inr screenshot, w1) \<and>
    captureAriaSnapshot ctx w1 = (Inr snapshot, w2) \<and>
    remote ctx w2 ''browser_enumerate_elements'' (JObj [(''includeHidden'', JBool False)]) = Inl e
    \<longrightarrow> fst (enhancedSnapshot_handle ctx params w) =
          Inr (ImageContent screenshot ''image/png'' # snapshot)) \<and>
   (EnumerateElementsSchema_parse params = Inr ve \<and>
    remote ctx w ''browser_enumerate_elements''
      (JObj [(''includeHidden'', JBool (case includeHidden ve of None \<Rightarrow> False | Some b \<Rightarrow> b))]) = Inl e
    \<longrightarrow> fst (enumerateElements_handle ctx params w) = Inl e) \<and>
   (ClickBySelectorSchema_parse params = Inr vc \<and>
    remote ctx w ''browser_click_by_selector'' (JObj [(''selector'', JStr (click_selector vc))]) = Inl e
    \<longrightarrow> fst (clickBySelector_handle ctx params w) = Inl e) \<and>
   (ClickBySelectorSchema_parse params = Inr vc \<and>
    sendSocketMessage ctx ''browser_click_by_selector''
      (JObj [(''selector'', JStr (click_selector vc))]) w = (Inr ack, w1) \<and>
    fst (captureAriaSnapshot ctx w1) = Inl e
    \<longrightarrow> fst (clickBySelector_handle ctx params w) = Inl e) \<and>
   (EnhancedSnapshotSchema_parse params = Inr v \<and>
    remote ctx w ''browser_screenshot'' (JObj []) = Inl e
    \<longrightarrow> fst (enhancedSnapshot_handle ctx params w) = Inl e) \<and>
   (EnhancedSnapshotSchema_parse params = Inr v \<and>
    sendSocketMessage ctx ''browser_screenshot'' (JObj []) w = (Inr screenshot, w1) \<and>
    fst (captureAriaSnapshot ctx w1) = Inl e
    \<longrightarrow> fst (enhancedSnapshot_handle ctx params w) = Inl e)"
proof (intro conjI impI)
  assume "EnhancedSnapshotSchema_parse params = Inr v \<and> includeElements v = Some True \<and>
    sendSocketMessage ctx ''browser_screenshot'' (JObj []) w = (Inr screenshot, w1) \<and>
    captureAriaSnapshot ctx w1 = (Inr snapshot, w2) \<and>
    remote ctx w2 ''browser_enumerate_elements'' (JObj [(''includeHidden'', JBool False)]) = Inl e"
  then show "fst (enhancedSnapshot_handle ctx params w) =
          Inr (ImageContent screenshot ''image/png'' # snapshot)"
    by (simp add: enhancedSnapshot_handle_def enumerate_block_def sendSocketMessage_def)
next
  assume "EnumerateElementsSchema_parse params = Inr ve \<and>
    remote ctx w ''browser_enumerate_elements''
      (JObj [(''includeHidden'', JBool (case includeHidden ve of None \<Rightarrow> False | Some b \<Rightarrow> b))]) = Inl e"
  then show "fst (enumerateElements_handle ctx params w) = Inl e"
    by (simp add: enumerateElements_handle_def sendSocketMessage_def)
next
  assume "ClickBySelectorSchema_parse params = Inr vc \<and>
    remote ctx w ''browser_click_by_selector'' (JObj [(''selector'', JStr (click_selector vc))]) = Inl e"
  then show "fst (clickBySelector_handle ctx params w) = Inl e"
    by (simp add: clickBySelector_handle_def sendSocketMessage_def)
next
  assume "ClickBySelectorSchema_parse params = Inr vc \<and>
    sendSocketMessage ctx ''browser_click_by_selector''
      (JObj [(''selector'', JStr (click_selector vc))]) w = (Inr ack, w1) \<and>
    fst (captureAriaSnapshot ctx w1) = Inl e"
  then show "fst (clickBySelector_handle ctx params w) = Inl e"
    by (cases "captureAriaSnapshot ctx w1") (simp add: clickBySelector_handle_def)
next
  assume "EnhancedSnapshotSchema_parse params = Inr v \<and>
    remote ctx w ''browser_screenshot'' (JObj []) = Inl e"
  then show "fst (enhancedSnapshot_handle ctx params w) = Inl e"
    by (simp add: enhancedSnapshot_handle_def sendSocketMessage_def)
next
  assume "EnhancedSnapshotSchema_parse params = Inr v \<and>
    sendSocketMessage ctx ''browser_screenshot'' (JObj []) w = (Inr screenshot, w1) \<and>
    fst (captureAriaSnapshot ctx w1) = Inl e"
  then show "fst (enhancedSnapshot_handle ctx params w) = Inl e"
    by (cases "captureAriaSnapshot ctx w1") (simp add: enhancedSnapshot_handle_def)
qed


theorem enumeration_failure_absorbed_witness:
  "fst (enhancedSnapshot_handle
          \<lparr> remote = (\<lambda>w t p. if t = ''browser_enumerate_elements''
                                then Inl (ChannelError ''timeout'') else Inr (JStr ''png'')),
            aria = (\<lambda>w. (Inr [TextContent ''tree''], w)) \<rparr>
          (JObj [(''includeElements'', JBool True)]) []) =
     Inr [ImageContent (JStr ''png'') ''image/png'', TextContent ''tree''] \<and>
   fst (enumerateElements_handle
          \<lparr> remote = (\<lambda>w t p. if t = ''browser_enumerate_elements''
                                then Inl (ChannelError ''timeout'') else Inr (JStr ''png'')),
            aria = (\<lambda>w. (Inr [TextContent ''tree''], w)) \<rparr>
          (JObj [(''includeElements'', JBool True)]) []) =
     Inl (ChannelError ''timeout'')"
  using enumeration_failure_absorbed
    [where params = "JObj [(''includeElements'', JBool True)]"
       and v = "\<lparr> includeElements = Some True \<rparr>"
       and ve = "\<lparr> includeHidden = None \<rparr>"
       and ctx = "\<lparr> remote = (\<lambda>w t p. if t = ''browser_enumerate_elements''
                                then Inl (ChannelError ''timeout'') else Inr (JStr ''png'')),
            aria = (\<lambda>w. (Inr [TextContent ''tree''], w)) \<rparr>"
       and w = "[]" and screenshot = "JStr ''png''"
       and ?w1.0 = "[(''browser_screenshot'', JObj [])]"
       and snapshot = "[TextContent ''tree'']"
       and ?w2.0 = "[(''browser_screenshot'', JObj [])]"
       and e = "ChannelError ''timeout''"]
  by (simp add: EnhancedSnapshotSchema_parse_def EnumerateElementsSchema_parse_def get_prop_def
      z_optional_def z_boolean_def sendSocketMessage_def captureAriaSnapshot_def)


text \<open>
  Claim C9, as the code has it. The schemas declare the flags optional without a default,
  so validation of an argument object that leaves a flag out yields \<open>undefined\<close> for
  it, not \<open>false\<close>. The handlers supply the default where they use the flag: the
  enumerate operation sends exactly one message, with \<open>includeHidden = false\<close>, and
  the enhanced capture does what it does without the elements step, so that after the
  screenshot message and the capture it sends nothing.
\<close>

theorem unspecified_flag_acts_as_false:
  "(get_prop ps ''includeHidden'' = JUndefined \<longrightarrow>
      EnumerateElementsSchema_parse (JObj ps) = Inr \<lparr> includeHidden = None \<rparr> \<and>
      snd (enumerateElements_handle ctx (JObj ps) w) =
        w @ [(''browser_enumerate_elements'', JObj [(''includeHidden'', JBool False)])]) \<and>
   (get_prop ps ''includeElements'' = JUndefined \<longrightarrow>
      EnhancedSnapshotSchema_parse (JObj ps) = Inr \<lparr> includeElements = None \<rparr> \<and>
      enhancedSnapshot_handle ctx (JObj ps) w =
        (case sendSocketMessage ctx ''browser_screenshot'' (JObj []) w of
           (Inl e, w1) \<Rightarrow> (Inl e, w1)
         | (Inr screenshot, w1) \<Rightarrow>
             (case captureAriaSnapshot ctx w1 of
                (Inl e, w2) \<Rightarrow> (Inl e, w2)
              | (Inr snapshot, w2) \<Rightarrow>
                  (Inr (ImageContent screenshot ''image/png'' # snapshot), w2))))"
proof (intro conjI impI)
  assume u: "get_prop ps ''includeHidden'' = JUndefined"
  then show p1: "EnumerateElementsSchema_parse (JObj ps) = Inr \<lparr> includeHidden = None \<rparr>"
    by (simp add: EnumerateElementsSchema_parse_def z_optional_def)
  show "snd (enumerateElements_handle ctx (JObj ps) w) =
           w @ [(''browser_enumerate_elements'', JObj [(''includeHidden'', JBool False)])]"
    by (simp add: enumerateElements_handle_def p1 sendSocketMessage_def Let_def
        split: sum.splits jsval.splits list.splits)
next
  assume u: "get_prop ps ''includeElements'' = JUndefined"
  then show p2: "EnhancedSnapshotSchema_parse (JObj ps) = Inr \<lparr> includeElements = None \<rparr>"
    by (simp add: EnhancedSnapshotSchema_parse_def z_optional_def)
  show "enhancedSnapshot_handle ctx (JObj ps) w =
           (case sendSocketMessage ctx ''browser_screenshot'' (JObj []) w of
              (Inl e, w1) \<Rightarrow> (Inl e, w1)
            | (Inr screenshot, w1) \<Rightarrow>
                (case captureAriaSnapshot ctx w1 of
                   (Inl e, w2) \<Rightarrow> (Inl e, w2)
                 | (Inr snapshot, w2) \<Rightarrow>
                     (Inr (ImageContent screenshot ''image/png'' # snapshot), w2)))"
    by (simp add: enhancedSnapshot_handle_def p2 Let_def split: prod.splits sum.splits)
qed

theorem unspecified_flag_acts_as_false_witness:
  "EnumerateElementsSchema_parse (JObj []) = Inr \<lparr> includeHidden = None \<rparr> \<and>
   snd (enumerateElements_handle
          \<lparr> remote = (\<lambda>w t p. Inr (JStr ''png'')), aria = (\<lambda>w. (Inr [], w)) \<rparr> (JObj []) []) =
     [(''browser_enumerate_elements'', JObj [(''includeHidden'', JBool False)])] \<and>
   enhancedSnapshot_handle
     \<lparr> remote = (\<lambda>w t p. Inr (JStr ''png'')), aria = (\<lambda>w. (Inr [], w)) \<rparr> (JObj []) [] =
     (Inr [ImageContent (JStr ''png'') ''image/png''], [(''browser_screenshot'', JObj [])])"
  using unspecified_flag_acts_as_false
    [of "[]" "\<lparr> remote = (\<lambda>w t p. Inr (JStr ''png'')), aria = (\<lambda>w. (Inr [], w)) \<rparr>" "[]"]
  by (simp add: get_prop_def sendSocketMessage_def captureAriaSnapshot_def)

text \<open>
  At the empty argument object the validated flag is \<open>undefined\<close> and is not
  \<open>false\<close>, for both schemas.
\<close>

theorem validation_leaves_flag_undefined:
  "EnumerateElementsSchema_parse (JObj []) = Inr \<lparr> includeHidden = None \<rparr> \<and>
   EnumerateElementsSchema_parse (JObj []) \<noteq> Inr \<lparr> includeHidden = Some False \<rparr> \<and>
   EnhancedSnapshotSchema_parse (JObj []) = Inr \<lparr> includeElements = None \<rparr> \<and>
   EnhancedSnapshotSchema_parse (JObj []) \<noteq> Inr \<lparr> includeElements = Some False \<rparr>"
  by (simp add: EnumerateElementsSchema_parse_def EnhancedSnapshotSchema_parse_def get_prop_def
      z_optional_def)

section \<open>Properties of the listing\<close>

lemma foldl_learned_bullets:
  "foldl (\<lambda>acc (key, value). acc @ learned_bullet key value) acc m =
     acc @ concat (map (\<lambda>(key, value). learned_bullet key value) m)"
  by (induction m arbitrary: acc) (auto simp: case_prod_beta)

text \<open>
  Claim C7. With an empty store the listing is the heading, the sentence
  \<open>No selectors have been taught yet.\<close> and one line of hint that names the teach
  tool \<open>browser_teach_selector\<close>. With a non-empty store it is the heading followed
  by one bullet per record, in the order of the store. A bullet shows the description,
  the selector, a line of notes when the record has notes (and they are not the empty
  string) and no such line otherwise, and the time of teaching as
  \<open>toISOString\<close> writes it, which has the shape of an ISO 8601 date-time.
\<close>

theorem listing_of_learned_selectors:
  "(Map_size (h learnedSelectors) = 0 \<longrightarrow>
      getLearnedSelectors_handle h =
        (Inr [TextContent
               (''## Learned CSS Selectors'' @ NL @ NL @
                ''No selectors have been taught yet.'' @ NL @ NL @
                ''Use the `browser_teach_selector` tool to teach the model which selectors to use for specific actions.'')],
         h)) \<and>
   (Map_size (h learnedSelectors) \<noteq> 0 \<longrightarrow>
      getLearnedSelectors_handle h =
        (Inr [TextContent
               (''## Learned CSS Selectors'' @ NL @ NL @
                concat (map (\<lambda>(key, value). learned_bullet key value) (h learnedSelectors)))],
         h)) \<and>
   length (map (\<lambda>(key, value). learned_bullet key value) (h learnedSelectors)) =
     Map_size (h learnedSelectors) \<and>
   (notes' value = None \<or> notes' value = Some [] \<longrightarrow>
      learned_bullet key value =
        ''- **'' @ key @ ''**'' @ NL @ ''  - Selector: `'' @ selector value @ ''`'' @ NL @
        ''  - Taught: '' @ toISOString (timestamp value) @ NL) \<and>
   (notes' value = Some n \<and> n \<noteq> [] \<longrightarrow>
      learned_bullet key value =
        ''- **'' @ key @ ''**'' @ NL @ ''  - Selector: `'' @ selector value @ ''`'' @ NL @
        ''  - Notes: '' @ n @ NL @
        ''  - Taught: '' @ toISOString (timestamp value) @ NL) \<and>
   iso8601_shape (toISOString (timestamp value))"
proof -
  have a: "Map_size (h learnedSelectors) = 0 \<longrightarrow>
      getLearnedSelectors_handle h =
        (Inr [TextContent
               (''## Learned CSS Selectors'' @ NL @ NL @
                ''No selectors have been taught yet.'' @ NL @ NL @
                ''Use the `browser_teach_selector` tool to teach the model which selectors to use for specific actions.'')],
         h)"
    by (simp add: getLearnedSelectors_handle_def)
  have b: "Map_size (h learnedSelectors) \<noteq> 0 \<longrightarrow>
      getLearnedSelectors_handle h =
        (Inr [TextContent
               (''## Learned CSS Selectors'' @ NL @ NL @
                concat (map (\<lambda>(key, value). learned_bullet key value) (h learnedSelectors)))],
         h)"
    by (simp add: getLearnedSelectors_handle_def foldl_learned_bullets)
  have c: "length (map (\<lambda>(key, value). learned_bullet key value) (h learnedSelectors)) =
     Map_size (h learnedSelectors)"
    by (simp add: Map_size_def)
  have d: "notes' value = None \<or> notes' value = Some [] \<longrightarrow>
      learned_bullet key value =
        ''- **'' @ key @ ''**'' @ NL @ ''  - Selector: `'' @ selector value @ ''`'' @ NL @
        ''  - Taught: '' @ toISOString (timestamp value) @ NL"
    by (auto simp: learned_bullet_def)
  have e: "notes' value = Some n \<and> n \<noteq> [] \<longrightarrow>
      learned_bullet key value =
        ''- **'' @ key @ ''**'' @ NL @ ''  - Selector: `'' @ selector value @ ''`'' @ NL @
        ''  - Notes: '' @ n @ NL @
        ''  - Taught: '' @ toISOString (timestamp value) @ NL"
    by (auto simp: learned_bullet_def)
  have f: "iso8601_shape (toISOString (timestamp value))"
    by (rule iso8601_shape_toISOString)
  from a b c d e f show ?thesis by blast
qed

lemma toISOString_example: "toISOString 1700000000000 = ''2023-11-14T22:13:20.000Z''"
  by code_simp

theorem listing_of_learned_selectors_witness:
  "getLearnedSelectors_handle module_init =
     (Inr [TextContent
            (''## Learned CSS Selectors'' @ NL @ NL @
             ''No selectors have been taught yet.'' @ NL @ NL @
             ''Use the `browser_teach_selector` tool to teach the model which selectors to use for specific actions.'')],
      module_init) \<and>
   fst (getLearnedSelectors_handle
          (set_at module_init learnedSelectors ''login btn''
             \<lparr> selector = ''#a'', notes' = Some ''n1'', timestamp = 1700000000000 \<rparr>)) =
     Inr [TextContent
           (''## Learned CSS Selectors'' @ NL @ NL @
            ''- **login btn**'' @ NL @ ''  - Selector: `#a`'' @ NL @ ''  - Notes: n1'' @ NL @
            ''  - Taught: 2023-11-14T22:13:20.000Z'' @ NL)]"
  using listing_of_learned_selectors [of module_init "\<lparr> selector = ''#a'', notes' = Some ''n1'', timestamp = 1700000000000 \<rparr>" "''n1''" "''login btn''"]
    listing_of_learned_selectors [of "set_at module_init learnedSelectors ''login btn''
             \<lparr> selector = ''#a'', notes' = Some ''n1'', timestamp = 1700000000000 \<rparr>"
       "\<lparr> selector = ''#a'', notes' = Some ''n1'', timestamp = 1700000000000 \<rparr>" "''n1''" "''login btn''"]
  by (simp add: module_init_def Map_size_def set_at_def toISOString_example learned_bullet_def)

section \<open>Properties of the shared reference\<close>

text \<open>
  Claim C1, as the code has it. \<open>getLearnedSelectorsMap\<close> returns the reference of the
  store itself, so a \<open>set\<close> or a \<open>clear\<close> through the returned value is one on the
  store, while the same call through another reference leaves the store alone. The two
  readers of the repository, the listing and the resource endpoint, change nothing.
\<close>

theorem store_shared_by_reference:
  "getLearnedSelectorsMap = learnedSelectors \<and>
   set_at h getLearnedSelectorsMap k v learnedSelectors = Map_set (h learnedSelectors) k v \<and>
   clear_at h getLearnedSelectorsMap learnedSelectors = [] \<and>
   (r \<noteq> learnedSelectors \<longrightarrow>
      set_at h r k v learnedSelectors = h learnedSelectors \<and>
      clear_at h r learnedSelectors = h learnedSelectors) \<and>
   snd (getLearnedSelectors_handle h) = h \<and>
   snd (createSelectorsResource_read getLearnedSelectorsMap h) = h"
  by (simp add: getLearnedSelectorsMap_def set_at_def clear_at_def getLearnedSelectors_handle_def
      createSelectorsResource_read_def Let_def)

theorem store_shared_by_reference_witness:
  "set_at module_init getLearnedSelectorsMap ''x''
     \<lparr> selector = ''#a'', notes' = None, timestamp = 0 \<rparr> learnedSelectors =
     [(''x'', \<lparr> selector = ''#a'', notes' = None, timestamp = 0 \<rparr>)] \<and>
   set_at module_init (Suc learnedSelectors) ''x''
     \<lparr> selector = ''#a'', notes' = None, timestamp = 0 \<rparr> learnedSelectors = []"
  using store_shared_by_reference
    [of module_init "''x''" "\<lparr> selector = ''#a'', notes' = None, timestamp = 0 \<rparr>"
       "Suc learnedSelectors"]
  by (simp add: module_init_def getLearnedSelectorsMap_def set_at_def)

text \<open>
  A caller that takes the value of the getter and calls \<open>set\<close> on it changes the
  contents of the store, and with them what the listing returns.
\<close>

theorem returned_view_mutates_store:
  "set_at module_init getLearnedSelectorsMap ''x''
     \<lparr> selector = ''#a'', notes' = None, timestamp = 0 \<rparr> learnedSelectors \<noteq>
   module_init learnedSelectors \<and>
   fst (getLearnedSelectors_handle
          (set_at module_init getLearnedSelectorsMap ''x''
             \<lparr> selector = ''#a'', notes' = None, timestamp = 0 \<rparr>)) \<noteq>
   fst (getLearnedSelectors_handle module_init)"
  by (simp add: set_at_def getLearnedSelectorsMap_def module_init_def
      getLearnedSelectors_handle_def Map_size_def learned_bullet_def)

section \<open>Properties of the resource document\<close>

lemma set_insert_index: "set (insert_index k v ps) = insert (k, v) (set ps)"
  by (induction ps) (auto split: if_splits)

lemma set_object_set:
  "set (object_set data k v) \<subseteq> set data \<union> {(k, v)}"
  by (auto simp: object_set_def set_insert_index split: if_splits)

lemma resource_data_entries_aux:
  "\<forall>(k, e) \<in> set data. \<exists>value. (k, value) \<in> S \<and> e = resource_entry value \<Longrightarrow>
   set m \<subseteq> S \<Longrightarrow>
   \<forall>(k, e) \<in> set (foldl (\<lambda>data (key, value). object_set data key (resource_entry value)) data m).
      \<exists>value. (k, value) \<in> S \<and> e = resource_entry value"
proof (induction m arbitrary: data)
  case Nil
  then show ?case by simp
next
  case (Cons p m)
  obtain key val where p: "p = (key, val)" by (cases p)
  have "\<forall>(k, e) \<in> set (object_set data key (resource_entry val)).
          \<exists>value. (k, value) \<in> S \<and> e = resource_entry value"
    using Cons.prems set_object_set [of data key "resource_entry val"] p by fastforce
  moreover have "set m \<subseteq> S" using Cons.prems by simp
  ultimately show ?case using Cons.IH p by simp
qed

lemma resource_data_entries:
  "\<forall>(k, e) \<in> set (resource_data m). \<exists>value. (k, value) \<in> set m \<and> e = resource_entry value"
  unfolding resource_data_def by (rule resource_data_entries_aux) simp_all

lemma serialize_entry_without_notes:
  "notes' value = None \<Longrightarrow>
   SerializeJSONProperty indent (resource_entry value) =
     Some (''{'' @ NL @ indent @ gap @
           QuoteJSONString ''selector'' @ '': '' @ QuoteJSONString (selector value) @ '','' @ NL @
           indent @ gap @
           QuoteJSONString ''timestamp'' @ '': '' @
           QuoteJSONString (toISOString (timestamp value)) @ NL @ indent @ ''}'')"
  by (simp add: resource_entry_def)

lemma serialize_entry_with_notes:
  "notes' value = Some n \<Longrightarrow>
   SerializeJSONProperty indent (resource_entry value) =
     Some (''{'' @ NL @ indent @ gap @
           QuoteJSONString ''selector'' @ '': '' @ QuoteJSONString (selector value) @ '','' @ NL @
           indent @ gap @
           QuoteJSONString ''notes'' @ '': '' @ QuoteJSONString n @ '','' @ NL @
           indent @ gap @
           QuoteJSONString ''timestamp'' @ '': '' @
           QuoteJSONString (toISOString (timestamp value)) @ NL @ indent @ ''}'')"
  by (simp add: resource_entry_def)

lemma object_members_entries:
  "\<forall>(k, e) \<in> set data. \<exists>value. e = resource_entry value \<Longrightarrow>
   object_members indent data =
     map (\<lambda>(k, e). QuoteJSONString k @ '': '' @
            (case SerializeJSONProperty indent e of None \<Rightarrow> [] | Some str \<Rightarrow> str)) data"
proof (induction data)
  case Nil
  then show ?case by simp
next
  case (Cons p data)
  obtain k e where p: "p = (k, e)" by (cases p)
  with Cons.prems obtain val where "e = resource_entry val" by auto
  then obtain str where "SerializeJSONProperty indent e = Some str"
    by (simp add: resource_entry_def)
  with Cons p show ?case by simp
qed

text \<open>
  Claim C10. The resource endpoint returns one document, the serialization of the
  object \<open>data\<close>. Every own property of \<open>data\<close> holds the entry of a record stored
  under that key, and every one of them is written as a member of the document. The
  entry of a record without notes is written with the two keys \<open>selector\<close> and
  \<open>timestamp\<close> and no others: the key \<open>notes\<close> is absent, not \<open>null\<close>. The entry
  of a record with notes has the three keys.
\<close>

theorem resource_document_omits_absent_notes:
  "fst (createSelectorsResource_read r h) =
     [\<lparr> res_uri = ''selectors://learned'', res_mimeType = ''application/json'',
        res_text = JSON_stringify (JObj (resource_data (h r))) \<rparr>] \<and>
   (\<forall>(k, e) \<in> set (resource_data (h r)). \<exists>value. (k, value) \<in> set (h r) \<and> e = resource_entry value) \<and>
   object_members gap (resource_data (h r)) =
     map (\<lambda>(k, e). QuoteJSONString k @ '': '' @
            (case SerializeJSONProperty gap e of None \<Rightarrow> [] | Some str \<Rightarrow> str))
       (resource_data (h r)) \<and>
   (notes' value = None \<longrightarrow>
      SerializeJSONProperty indent (resource_entry value) =
        Some (''{'' @ NL @ indent @ gap @
              QuoteJSONString ''selector'' @ '': '' @ QuoteJSONString (selector value) @ '','' @ NL @
              indent @ gap @
              QuoteJSONString ''timestamp'' @ '': '' @
              QuoteJSONString (toISOString (timestamp value)) @ NL @ indent @ ''}'')) \<and>
   (notes' value = Some n \<longrightarrow>
      SerializeJSONProperty indent (resource_entry value) =
        Some (''{'' @ NL @ indent @ gap @
              QuoteJSONString ''selector'' @ '': '' @ QuoteJSONString (selector value) @ '','' @ NL @
              indent @ gap @
              QuoteJSONString ''notes'' @ '': '' @ QuoteJSONString n @ '','' @ NL @
              indent @ gap @
              QuoteJSONString ''timestamp'' @ '': '' @
              QuoteJSONString (toISOString (timestamp value)) @ NL @ indent @ ''}''))"
proof -
  have a: "fst (createSelectorsResource_read r h) =
     [\<lparr> res_uri = ''selectors://learned'', res_mimeType = ''application/json'',
        res_text = JSON_stringify (JObj (resource_data (h r))) \<rparr>]"
    by (simp add: createSelectorsResource_read_def Let_def)
  have b: "\<forall>(k, e) \<in> set (resource_data (h r)). \<exists>value. (k, value) \<in> set (h r) \<and> e = resource_entry value"
    by (rule resource_data_entries)
  then have "\<forall>(k, e) \<in> set (resource_data (h r)). \<exists>value. e = resource_entry value"
    by fast
  then have c: "object_members gap (resource_data (h r)) =
     map (\<lambda>(k, e). QuoteJSONString k @ '': '' @
            (case SerializeJSONProperty gap e of None \<Rightarrow> [] | Some str \<Rightarrow> str))
       (resource_data (h r))"
    by (rule object_members_entries)
  from a b c serialize_entry_without_notes [of "value" indent]
    serialize_entry_with_notes [of "value" n indent]
  show ?thesis by blast
qed

theorem resource_document_omits_absent_notes_witness:
  "fst (createSelectorsResource_read getLearnedSelectorsMap
          (set_at module_init learnedSelectors ''login btn''
             \<lparr> selector = ''#a'', notes' = None, timestamp = 1700000000000 \<rparr>)) =
     [\<lparr> res_uri = ''selectors://learned'', res_mimeType = ''application/json'',
        res_text =
          ''{'' @ NL @
          ''  '' @ DQ @ ''login btn'' @ DQ @ '': {'' @ NL @
          ''    '' @ DQ @ ''selector'' @ DQ @ '': '' @ DQ @ ''#a'' @ DQ @ '','' @ NL @
          ''    '' @ DQ @ ''timestamp'' @ DQ @ '': '' @ DQ @ ''2023-11-14T22:13:20.000Z'' @ DQ @ NL @
          ''  }'' @ NL @
          ''}'' \<rparr>]"
  (is "?lhs = ?rhs")
proof -
  have e: "?lhs = ?rhs" by code_simp
  from resource_document_omits_absent_notes
    [of getLearnedSelectorsMap
        "set_at module_init learnedSelectors ''login btn''
             \<lparr> selector = ''#a'', notes' = None, timestamp = 1700000000000 \<rparr>"
        "\<lparr> selector = ''#a'', notes' = None, timestamp = 1700000000000 \<rparr>"]
  show ?thesis by (simp only: e)
qed

lemma map_of_replace:
  "map_of (map (\<lambda>(k', v'). if k' = k then (k', v) else (k', v')) data) x =
     (if x = k \<and> map_of data k \<noteq> None then Some v else map_of data x)"
  by (induction data) auto

lemma map_of_insert_index:
  "map_of data k = None \<Longrightarrow>
   map_of (insert_index k v data) x = (if x = k then Some v else map_of data x)"
  by (induction data) (auto split: if_splits)

lemma map_of_object_set:
  "k \<noteq> ''__proto__'' \<Longrightarrow>
   map_of (object_set data k v) x = (if x = k then Some v else map_of data x)"
  by (auto simp: object_set_def map_of_replace map_of_insert_index map_add_def
      split: option.splits)

lemma object_set_proto: "object_set data ''__proto__'' v = data"
  by (simp add: object_set_def)

lemma map_of_resource_fold:
  "distinct (map fst m) \<Longrightarrow> k \<noteq> ''__proto__'' \<Longrightarrow>
   map_of (foldl (\<lambda>data (key, value). object_set data key (resource_entry value)) data m) k =
     (case map_of m k of None \<Rightarrow> map_of data k | Some v \<Rightarrow> Some (resource_entry v))"
proof (induction m arbitrary: data)
  case Nil
  then show ?case by simp
next
  case (Cons p m)
  obtain k1 v1 where p: "p = (k1, v1)" by (cases p)
  from Cons.prems p have d: "distinct (map fst m)" and n: "k1 \<notin> fst ` set m" by auto
  have ih: "map_of (foldl (\<lambda>data (key, value). object_set data key (resource_entry value))
                     (object_set data k1 (resource_entry v1)) m) k =
     (case map_of m k of
        None \<Rightarrow> map_of (object_set data k1 (resource_entry v1)) k
      | Some v \<Rightarrow> Some (resource_entry v))"
    using Cons.IH [OF d Cons.prems(2)] .
  show ?case
  proof (cases "k = k1")
    case True
    with n have "map_of m k = None" by (simp add: map_of_eq_None_iff)
    with True ih Cons.prems(2) p show ?thesis by (simp add: map_of_object_set)
  next
    case False
    have "map_of (object_set data k1 (resource_entry v1)) k = map_of data k"
    proof (cases "k1 = ''__proto__''")
      case True
      then show ?thesis by (simp add: object_set_proto)
    next
      case False
      with \<open>k \<noteq> k1\<close> show ?thesis by (simp add: map_of_object_set)
    qed
    with False ih p show ?thesis by (simp split: option.splits)
  qed
qed

text \<open>
  For every description other than \<open>__proto__\<close>, the record that a teach call stores
  is in the store that the listing renders, and the object behind the resource document
  holds its entry under the same key.
\<close>

lemma resource_agrees_with_listing:
  assumes "distinct (map fst (h learnedSelectors))" and "x \<noteq> ''__proto__''"
  shows "let h' = snd (teachSelector_handle now (teach_arguments x t n) h)
         in Map_get (h' learnedSelectors) x = Some \<lparr> selector = t, notes' = n, timestamp = now \<rparr> \<and>
            get_prop (resource_data (h' learnedSelectors)) x =
              resource_entry \<lparr> selector = t, notes' = n, timestamp = now \<rparr>"
proof -
  let ?v = "\<lparr> selector = t, notes' = n, timestamp = now \<rparr>"
  let ?m = "Map_set (h learnedSelectors) x ?v"
  have d: "distinct (map fst ?m)" using assms(1) by (rule distinct_Map_set)
  have g: "map_of ?m x = Some ?v" by (simp add: map_of_Map_set)
  have "map_of (resource_data ?m) x = Some (resource_entry ?v)"
    unfolding resource_data_def using map_of_resource_fold [OF d assms(2), of "[]"] g by simp
  with g show ?thesis
    by (simp add: teach_store set_at_def Map_get_def get_prop_def Let_def)
qed

text \<open>
  Claim C8, at the description \<open>__proto__\<close>. After teaching it with target \<open>#a\<close>
  and notes \<open>n1\<close>, the listing shows the record, and the resource document is the
  empty object: the assignment \<open>data[key] = ...\<close> did not create a property. For the
  description \<open>login btn\<close> both show the record.
\<close>

theorem proto_description_missing_from_resource:
  "fst (getLearnedSelectors_handle
          (snd (teachSelector_handle 1700000000000
                  (teach_arguments ''__proto__'' ''#a'' (Some ''n1'')) module_init))) =
     Inr [TextContent
           (''## Learned CSS Selectors'' @ NL @ NL @
            ''- **__proto__**'' @ NL @ ''  - Selector: `#a`'' @ NL @ ''  - Notes: n1'' @ NL @
            ''  - Taught: 2023-11-14T22:13:20.000Z'' @ NL)] \<and>
   fst (createSelectorsResource_read getLearnedSelectorsMap
          (snd (teachSelector_handle 1700000000000
                  (teach_arguments ''__proto__'' ''#a'' (Some ''n1'')) module_init))) =
     [\<lparr> res_uri = ''selectors://learned'', res_mimeType = ''application/json'',
        res_text = ''{}'' \<rparr>] \<and>
   fst (getLearnedSelectors_handle
          (snd (teachSelector_handle 1700000000000
                  (teach_arguments ''login btn'' ''#a'' (Some ''n1'')) module_init))) =
     Inr [TextContent
           (''## Learned CSS Selectors'' @ NL @ NL @
            ''- **login btn**'' @ NL @ ''  - Selector: `#a`'' @ NL @ ''  - Notes: n1'' @ NL @
            ''  - Taught: 2023-11-14T22:13:20.000Z'' @ NL)] \<and>
   fst (createSelectorsResource_read getLearnedSelectorsMap
          (snd (teachSelector_handle 1700000000000
                  (teach_arguments ''login btn'' ''#a'' (Some ''n1'')) module_init))) =
     [\<lparr> res_uri = ''selectors://learned'', res_mimeType = ''application/json'',
        res_text =
          ''{'' @ NL @
          ''  '' @ DQ @ ''login btn'' @ DQ @ '': {'' @ NL @
          ''    '' @ DQ @ ''selector'' @ DQ @ '': '' @ DQ @ ''#a'' @ DQ @ '','' @ NL @
          ''    '' @ DQ @ ''notes'' @ DQ @ '': '' @ DQ @ ''n1'' @ DQ @ '','' @ NL @
          ''    '' @ DQ @ ''timestamp'' @ DQ @ '': '' @ DQ @ ''2023-11-14T22:13:20.000Z'' @ DQ @ NL @
          ''  }'' @ NL @
          ''}'' \<rparr>]"
  by code_simp

end
